theory Spec2Isabelle
  imports Complex_Main
begin

section \<open>JSON values and the wire envelope\<close>

text \<open>
  The extension's server (set up in \<^verbatim>\<open>activate\<close>) receives JSON text over a WebSocket, parses it and
  dispatches on the \<^verbatim>\<open>action\<close> field. JSON values are modelled as a datatype; JSON numbers
  are real numbers (JSON has neither NaN nor infinities). JavaScript strings are modelled
  as \<^typ>\<open>string\<close>, one \<^typ>\<open>char\<close> per character: the model covers text in which a
  character is one UTF-16 code unit, so that \<^verbatim>\<open>text.length\<close> and the number of iterations
  of \<^verbatim>\<open>for (const ch of text)\<close> agree, as they do in the source for such text.
\<close>

datatype json =
    JNull
  | JBool bool
  | JNum real
  | JStr string
  | JArr "json list"
  | JObj "(string \<times> json) list"

text \<open>JavaScript truthiness, as used by \<^verbatim>\<open>||\<close>, \<^verbatim>\<open>&&\<close>, \<^verbatim>\<open>!\<close> and \<^verbatim>\<open>?:\<close>.\<close>

fun truthy :: "json \<Rightarrow> bool" where
  "truthy JNull = False"
| "truthy (JBool b) = b"
| "truthy (JNum n) = (n \<noteq> 0)"
| "truthy (JStr s) = (s \<noteq> [])"
| "truthy (JArr xs) = True"
| "truthy (JObj kvs) = True"

text \<open>
  A field that may be missing from the request is an \<open>option\<close>; \<open>None\<close> is JavaScript's
  \<^verbatim>\<open>undefined\<close>. The helpers below are \<^verbatim>\<open>x || 0\<close> on an optional number,
  \<^verbatim>\<open>!x\<close> on an optional string and \<^verbatim>\<open>x || d\<close> on an optional string.
\<close>

definition orZero :: "nat option \<Rightarrow> nat" where
  "orZero x = (case x of None \<Rightarrow> 0 | Some n \<Rightarrow> n)"

definition orZeroReal :: "real option \<Rightarrow> real" where
  "orZeroReal x = (case x of None \<Rightarrow> 0 | Some n \<Rightarrow> n)"

definition missing :: "string option \<Rightarrow> bool" where
  "missing x = (case x of None \<Rightarrow> True | Some s \<Rightarrow> s = [])"

definition orElse :: "string option \<Rightarrow> string \<Rightarrow> string" where
  "orElse x d = (case x of None \<Rightarrow> d | Some s \<Rightarrow> if s = [] then d else s)"

text \<open>
  Outbound messages: \<^verbatim>\<open>{id, result}\<close>, \<^verbatim>\<open>{id, error}\<close>, and the un-correlated
  \<^verbatim>\<open>{error}\<close> sent when the inbound text is not JSON.
\<close>

datatype outbound =
    ResultMsg json json
  | ErrorMsg json string
  | BareError string

text \<open>
  \<^verbatim>\<open>sendResponse\<close> and \<^verbatim>\<open>sendError\<close> return the list of messages handed to
  \<^verbatim>\<open>socket.send\<close>. After \<^verbatim>\<open>msg.id || null\<close> an id is never \<^verbatim>\<open>undefined\<close>, so
  \<^verbatim>\<open>id == null\<close> is equality with \<^const>\<open>JNull\<close>. The source's \<^verbatim>\<open>id\<close> is written
  \<open>rid\<close>, since \<open>id\<close> is the identity function of HOL.
\<close>

definition sendResponse :: "json \<Rightarrow> json \<Rightarrow> outbound list" where
  "sendResponse rid result = (if rid = JNull then [] else [ResultMsg rid result])"

definition sendError :: "json \<Rightarrow> string \<Rightarrow> outbound list" where
  "sendError rid errorMsg = [ErrorMsg rid errorMsg]"

text \<open>\<^verbatim>\<open>const id = msg.id || null\<close>\<close>

definition extractId :: "json option \<Rightarrow> json" where
  "extractId v = (case v of None \<Rightarrow> JNull | Some j \<Rightarrow> if truthy j then j else JNull)"

text \<open>
  Template strings print numbers in decimal (\<^verbatim>\<open>`Typed ${params.text.length} characters`\<close>).
\<close>

definition digitChar :: "nat \<Rightarrow> char" where
  "digitChar d = ''0123456789'' ! d"

function digits :: "nat \<Rightarrow> string" where
  "digits n = (if n < 10 then [digitChar n] else digits (n div 10) @ [digitChar (n mod 10)])"
  by pat_completeness auto
termination
  by (relation "measure id") auto

declare digits.simps [simp del]

text \<open>
  \<^verbatim>\<open>${err.message || err}\<close>: a thrown \<^verbatim>\<open>Error\<close> is modelled by its message; an
  \<^verbatim>\<open>Error\<close> with an empty message prints as \<^verbatim>\<open>Error\<close>.
\<close>

definition errText :: "string \<Rightarrow> string" where
  "errText m = (if m = [] then ''Error'' else m)"

section \<open>Authentication gate\<close>

text \<open>
  \<^verbatim>\<open>verifyClient\<close> is installed only when \<^verbatim>\<open>authEnabled\<close> holds; without it the
  WebSocket library accepts every connection. The upgrade request is modelled by what the
  handler does with it. \<open>parsedUrl\<close> is the outcome of
  \<^verbatim>\<open>new URL(info.req.url || '', 'ws://localhost')\<close> and of \<^verbatim>\<open>url.searchParams.get('token')\<close>
  after it: \<open>Inl\<close> carries the message of the \<^verbatim>\<open>TypeError\<close> that \<^verbatim>\<open>new URL\<close> throws when the
  request target does not parse (the target \<^verbatim>\<open>//\<close> does not: its host is empty), \<open>Inr\<close> the
  value of the token parameter, \<open>None\<close> when the target has none. \<open>authorization\<close> is the
  header of that name. The handler has no \<^verbatim>\<open>try\<close> around the parse: a throw leaves
  \<^verbatim>\<open>verifyClient\<close> before either callback is called, which is the verdict \<open>Threw\<close>.
\<close>

record upgrade_request =
  parsedUrl :: "string + string option"
  authorization :: "string option"

datatype verdict = Accept | Reject nat string | Threw string

text \<open>\<^verbatim>\<open>s.replace(pat, rep)\<close> with a string pattern replaces the first occurrence only.\<close>

fun replaceFirst :: "string \<Rightarrow> string \<Rightarrow> string \<Rightarrow> string" where
  "replaceFirst pat rep [] = (if pat = [] then rep else [])"
| "replaceFirst pat rep (c # cs) =
     (if take (length pat) (c # cs) = pat then rep @ drop (length pat) (c # cs)
      else c # replaceFirst pat rep cs)"

definition headerToken :: "string option \<Rightarrow> string option" where
  "headerToken authHeader =
     (if missing authHeader then None
      else Some (replaceFirst ''Bearer '' [] (the authHeader)))"

definition verifyClient :: "string option \<Rightarrow> upgrade_request \<Rightarrow> verdict" where
  "verifyClient authToken req =
     (if missing authToken then Reject 401 ''Authentication token not configured on server''
      else
        case parsedUrl req of
          Inl err \<Rightarrow> Threw err
        | Inr clientToken \<Rightarrow>
            let hdrToken = headerToken (authorization req);
                tokenMatches = ((\<not> missing clientToken \<and> clientToken = authToken) \<or>
                                (\<not> missing hdrToken \<and> hdrToken = authToken))
            in if tokenMatches then Accept else Reject 401 ''Invalid authentication token'')"

definition admit :: "bool \<Rightarrow> string option \<Rightarrow> upgrade_request \<Rightarrow> verdict" where
  "admit authEnabled authToken req = (if authEnabled then verifyClient authToken req else Accept)"

section \<open>The editor surface\<close>

text \<open>
  The handlers talk to the editor through the VS Code API. What the handlers read and
  assign themselves is modelled concretely: a document is its list of lines
  (\<^verbatim>\<open>lineCount\<close> is the length, \<^verbatim>\<open>lineAt(n).text\<close> the \<open>n\<close>-th line, an error thrown when
  \<open>n\<close> is out of range), and \<^verbatim>\<open>editor.selection\<close> is a field. Line and character
  numbers of a request are JSON numbers that the protocol documents as zero-based
  positions; they are natural numbers here.
\<close>

datatype Position = Position (posLine: nat) (posCharacter: nat)

datatype Selection = Selection (anchor: Position) (active: Position)

definition isEmpty :: "Selection \<Rightarrow> bool" where
  "isEmpty s = (anchor s = active s)"

record editor =
  fileName :: string
  document :: "string list"
  selection :: Selection

definition lineCount :: "editor \<Rightarrow> int" where
  "lineCount ed = int (length (document ed))"

definition lineAt :: "editor \<Rightarrow> int \<Rightarrow> string + string" where
  "lineAt ed n =
     (if 0 \<le> n \<and> n < lineCount ed then Inr (document ed ! nat n)
      else Inl ''Illegal value for `line`'')"

text \<open>
  The window: the active editor, the \<^verbatim>\<open>document.uri.fsPath\<close> of each visible editor (all the
  \<^verbatim>\<open>closeFile\<close> handler reads of them), and the files on disk for the file-system
  operations to work on.
\<close>

record world =
  activeTextEditor :: "editor option"
  visibleTextEditors :: "string list"
  files :: "string \<rightharpoonup> string"

text \<open>
  Everything else is a call into VS Code or Node and is a parameter of the model: each
  operation maps the state before the call to an error message (\<open>Inl\<close>, the call threw or
  its promise was rejected) or to the state after it (\<open>Inr\<close>). A call that throws leaves
  the state as it was.
  \<^item> \<open>openTextDocument\<close>, \<open>showTextDocument\<close>, \<open>document_save\<close>, \<open>tabGroups_close\<close> and
    \<open>executeCommand\<close> are the calls of these names; \<open>executeCommand\<close> also returns the result of
    the command, \<open>None\<close> for \<^verbatim>\<open>undefined\<close>.
  \<^item> \<open>uri_fsPath\<close> is \<^verbatim>\<open>vscode.Uri.file(path).fsPath\<close>, the normalised form of a path.
  \<^item> \<open>fs_stat\<close>, \<open>fs_writeFile\<close> and \<open>fs_readFile\<close> are the calls on \<^verbatim>\<open>vscode.workspace.fs\<close>;
    \<open>fs_stat\<close> tells whether the call returned, and \<open>fs_readFile\<close> yields the bytes of the file.
    \<open>utf8_encode\<close> is \<^verbatim>\<open>Buffer.from(s, 'utf8')\<close> and \<open>utf8_decode\<close> is \<^verbatim>\<open>toString('utf-8')\<close>.
  \<^item> \<open>edit_delete\<close> and \<open>edit_insert\<close> are \<^verbatim>\<open>editor.edit\<close> with \<^verbatim>\<open>editBuilder.delete\<close> and
    \<^verbatim>\<open>editBuilder.insert\<close>; \<open>default_type\<close> is the command \<^verbatim>\<open>default:type\<close> for one character.
    The typing job works on the editor it took from the window when it started, as the source
    does through its \<^verbatim>\<open>editor\<close> reference, and the handler is modelled as running alone.
\<close>

record vscode =
  openTextDocument :: "string \<Rightarrow> world \<Rightarrow> string + world"
  showTextDocument :: "string \<Rightarrow> world \<Rightarrow> string + world"
  uri_fsPath :: "string \<Rightarrow> string"
  fs_stat :: "string \<Rightarrow> world \<Rightarrow> bool"
  fs_writeFile :: "string \<Rightarrow> string \<Rightarrow> world \<Rightarrow> string + world"
  fs_readFile :: "string \<Rightarrow> world \<Rightarrow> string + string"
  utf8_encode :: "string \<Rightarrow> string"
  utf8_decode :: "string \<Rightarrow> string"
  document_save :: "world \<Rightarrow> string + world"
  tabGroups_close :: "string list \<Rightarrow> world \<Rightarrow> string + world"
  executeCommand :: "string \<Rightarrow> json list \<Rightarrow> world \<Rightarrow> string + (json option \<times> world)"
  edit_delete :: "Selection \<Rightarrow> editor \<Rightarrow> string + editor"
  edit_insert :: "Position \<Rightarrow> string \<Rightarrow> editor \<Rightarrow> string + editor"
  default_type :: "char \<Rightarrow> editor \<Rightarrow> string + editor"

section \<open>Requests\<close>

record pos =
  line :: "nat option"
  character :: "nat option"

record range =
  range_start :: pos
  range_end :: pos

record params =
  path :: "string option"
  content :: "string option"
  command :: "string option"
  args :: "json list option"
  text_param :: "string option"
  position :: "pos option"
  selection_param :: "range option"
  mode :: "string option"
  speed :: "real option"
  variation :: "real option"
  duration :: "real option"
  quick :: "bool option"
  afterCursor :: "pos option"

record request =
  msg_id :: "json option"
  msg_action :: "string option"
  msg_method :: "string option"
  msg_params :: params

text \<open>What one message does: the state afterwards, the messages sent, and the delays waited.\<close>

record outcome =
  final :: world
  sent :: "outbound list"
  waits :: "real list"

section \<open>The typing engine\<close>

text \<open>
  The \<^verbatim>\<open>type\<close> handler. \<^verbatim>\<open>new vscode.Position(params.position.line || 0,
  params.position.character || 0)\<close>:
\<close>

definition toPosition :: "pos \<Rightarrow> Position" where
  "toPosition p = Position (orZero (line p)) (orZero (character p))"

text \<open>
  The three statements after each \<^verbatim>\<open>// Make sure position is valid\<close>; the source writes them
  out for the position, for the start and for the end of the selection.
\<close>

definition clampPosition :: "editor \<Rightarrow> Position \<Rightarrow> string + Position" where
  "clampPosition ed requested =
     (let docLine = min (int (posLine requested)) (lineCount ed - 1) in
      case lineAt ed docLine of
        Inl err \<Rightarrow> Inl err
      | Inr lineText \<Rightarrow>
          let lineLength = length lineText;
              docChar = min (posCharacter requested) lineLength
          in Inr (Position (nat docLine) docChar))"

text \<open>\<^verbatim>\<open>if (params.position) { ... }\<close>\<close>

definition placeCursor :: "params \<Rightarrow> editor \<Rightarrow> string + editor" where
  "placeCursor p ed =
     (case position p of
        None \<Rightarrow> Inr ed
      | Some q \<Rightarrow>
          (case clampPosition ed (toPosition q) of
             Inl err \<Rightarrow> Inl err
           | Inr validPosition \<Rightarrow> Inr (ed\<lparr>selection := Selection validPosition validPosition\<rparr>)))"

text \<open>\<^verbatim>\<open>if (params.selection) { ... }\<close>\<close>

definition placeSelection :: "params \<Rightarrow> editor \<Rightarrow> string + editor" where
  "placeSelection p ed =
     (case selection_param p of
        None \<Rightarrow> Inr ed
      | Some r \<Rightarrow>
          (case clampPosition ed (toPosition (range_start r)) of
             Inl err \<Rightarrow> Inl err
           | Inr validStart \<Rightarrow>
               (case clampPosition ed (toPosition (range_end r)) of
                  Inl err \<Rightarrow> Inl err
                | Inr validEnd \<Rightarrow> Inr (ed\<lparr>selection := Selection validStart validEnd\<rparr>))))"

text \<open>\<^verbatim>\<open>// Move to end of file first\<close> (the same four statements in both modes).\<close>

definition moveToEnd :: "editor \<Rightarrow> string + editor" where
  "moveToEnd ed =
     (let lastLine = lineCount ed - 1 in
      case lineAt ed lastLine of
        Inl err \<Rightarrow> Inl err
      | Inr lineText \<Rightarrow>
          let lastChar = length lineText;
              endPos = Position (nat lastLine) lastChar
          in Inr (ed\<lparr>selection := Selection endPos endPos\<rparr>))"

text \<open>\<^verbatim>\<open>if (mode === 'append') { ... }\<close>\<close>

definition appendMove :: "string \<Rightarrow> editor \<Rightarrow> string + editor" where
  "appendMove md ed = (if md = ''append'' then moveToEnd ed else Inr ed)"

text \<open>\<^verbatim>\<open>// For replace mode, if there's a selection, delete it first\<close>\<close>

definition clearSelection :: "vscode \<Rightarrow> string \<Rightarrow> editor \<Rightarrow> string + editor" where
  "clearSelection vs md ed =
     (if md = ''replace'' \<and> \<not> isEmpty (selection ed) then edit_delete vs (selection ed) ed
      else Inr ed)"

text \<open>\<^verbatim>\<open>// Determine typing speed and variation\<close>\<close>

definition resolveSpeed :: "real \<Rightarrow> params \<Rightarrow> string \<Rightarrow> real" where
  "resolveSpeed defaultSpeed p txt =
     (let speed0 = (case speed p of Some s \<Rightarrow> s | None \<Rightarrow> defaultSpeed) in
      case duration p of
        None \<Rightarrow> speed0
      | Some totalMs \<Rightarrow> totalMs / real (max (length txt) 1))"

text \<open>
  The loop \<^verbatim>\<open>for (const ch of params.text)\<close>. \<open>random i\<close> is the value of the \<open>i\<close>-th call
  of \<^verbatim>\<open>Math.random()\<close>. The result is the error thrown, if any, the editor as the loop
  left it, and the delays given to \<^verbatim>\<open>setTimeout\<close>, in order.
\<close>

fun typeLoop ::
  "vscode \<Rightarrow> real \<Rightarrow> real \<Rightarrow> (nat \<Rightarrow> real) \<Rightarrow> nat \<Rightarrow> string \<Rightarrow> editor
     \<Rightarrow> string option \<times> editor \<times> real list" where
  "typeLoop vs spd var random i [] ed = (None, ed, [])"
| "typeLoop vs spd var random i (ch # rest) ed =
     (let effectiveDelay =
            (if var \<noteq> 0 then spd * (1 + (random i * 2 - 1) * var) else spd)
      in case default_type vs ch ed of
           Inl err \<Rightarrow> (Some err, ed, [effectiveDelay])
         | Inr ed' \<Rightarrow>
             (case typeLoop vs spd var random (Suc i) rest ed' of
                (thrown, ed'', ws) \<Rightarrow> (thrown, ed'', effectiveDelay # ws)))"

text \<open>\<^verbatim>\<open>// Quick mode - insert all text at once without typing animation\<close>\<close>

definition quickPath :: "vscode \<Rightarrow> string \<Rightarrow> string \<Rightarrow> editor \<Rightarrow> (string + string) \<times> editor \<times> real list" where
  "quickPath vs md txt ed =
     (case appendMove md ed of
        Inl err \<Rightarrow> (Inl err, ed, [])
      | Inr ed1 \<Rightarrow>
          (case edit_insert vs (active (selection ed1)) txt ed1 of
             Inl err \<Rightarrow> (Inl err, ed1, [])
           | Inr ed2 \<Rightarrow>
               (Inr (''Inserted '' @ digits (length txt) @ '' characters (quick mode)''), ed2, [])))"

text \<open>\<^verbatim>\<open>// If requested, move cursor to specific position after typing\<close>\<close>

definition placeAfterCursor :: "params \<Rightarrow> editor \<Rightarrow> editor" where
  "placeAfterCursor p ed =
     (case afterCursor p of
        None \<Rightarrow> ed
      | Some a \<Rightarrow> let afterPos = toPosition a in ed\<lparr>selection := Selection afterPos afterPos\<rparr>)"

definition animatedPath ::
  "vscode \<Rightarrow> string \<Rightarrow> real \<Rightarrow> real \<Rightarrow> (nat \<Rightarrow> real) \<Rightarrow> params \<Rightarrow> string \<Rightarrow> editor
     \<Rightarrow> (string + string) \<times> editor \<times> real list" where
  "animatedPath vs md spd var random p txt ed =
     (case appendMove md ed of
        Inl err \<Rightarrow> (Inl err, ed, [])
      | Inr ed1 \<Rightarrow>
          (case typeLoop vs spd var random 0 txt ed1 of
             (Some err, ed2, ws) \<Rightarrow> (Inl err, ed2, ws)
           | (None, ed2, ws) \<Rightarrow>
               (Inr (''Typed '' @ digits (length txt) @ '' characters''), placeAfterCursor p ed2, ws)))"

text \<open>
  The body of the \<^verbatim>\<open>try\<close> block: \<open>Inl\<close> is the message of the error that reached
  \<^verbatim>\<open>catch\<close>, \<open>Inr\<close> the text of the success response; with it the editor as the block
  left it and the delays waited.
\<close>

definition typeJob ::
  "vscode \<Rightarrow> real \<Rightarrow> (nat \<Rightarrow> real) \<Rightarrow> params \<Rightarrow> string \<Rightarrow> editor
     \<Rightarrow> (string + string) \<times> editor \<times> real list" where
  "typeJob vs defaultSpeed random p txt ed =
     (case placeCursor p ed of
        Inl err \<Rightarrow> (Inl err, ed, [])
      | Inr ed1 \<Rightarrow>
     (case placeSelection p ed1 of
        Inl err \<Rightarrow> (Inl err, ed1, [])
      | Inr ed2 \<Rightarrow>
     (let md = orElse (mode p) ''insert'' in
      case clearSelection vs md ed2 of
        Inl err \<Rightarrow> (Inl err, ed2, [])
      | Inr ed3 \<Rightarrow>
          let spd = resolveSpeed defaultSpeed p txt;
              var = orZeroReal (variation p)
          in if quick p = Some True then quickPath vs md txt ed3
             else animatedPath vs md spd var random p txt ed3)))"

definition reply :: "world \<Rightarrow> outbound list \<Rightarrow> outcome" where
  "reply w msgs = \<lparr>final = w, sent = msgs, waits = []\<rparr>"

definition handleType ::
  "vscode \<Rightarrow> real \<Rightarrow> (nat \<Rightarrow> real) \<Rightarrow> json \<Rightarrow> params \<Rightarrow> world \<Rightarrow> outcome" where
  \<open>handleType vs defaultSpeed random rid p w =
     (if missing (text_param p) then reply w (sendError rid ''Missing "text" to type'')
      else case activeTextEditor w of
        None \<Rightarrow> reply w (sendError rid ''No active editor to type into'')
      | Some ed \<Rightarrow>
          (case typeJob vs defaultSpeed random p (the (text_param p)) ed of
             (Inr msg, ed', ws) \<Rightarrow>
               \<lparr>final = w\<lparr>activeTextEditor := Some ed'\<rparr>,
                sent = sendResponse rid (JStr msg), waits = ws\<rparr>
           | (Inl err, ed', ws) \<Rightarrow>
               \<lparr>final = w\<lparr>activeTextEditor := Some ed'\<rparr>,
                sent = sendError rid (''Typing failed: '' @ errText err), waits = ws\<rparr>))\<close>

section \<open>The document command handlers\<close>

definition handleOpenFile :: "vscode \<Rightarrow> json \<Rightarrow> params \<Rightarrow> world \<Rightarrow> outcome" where
  \<open>handleOpenFile vs rid p w =
     (if missing (path p) then reply w (sendError rid ''Missing "path" parameter'')
      else
        let pth = the (path p);
            failure = ''Could not open file (not found or inaccessible): '' @ pth
        in case openTextDocument vs pth w of
             Inl err \<Rightarrow> reply w (sendError rid failure)
           | Inr w1 \<Rightarrow>
               (case showTextDocument vs pth w1 of
                  Inl err \<Rightarrow> reply w1 (sendError rid failure)
                | Inr w2 \<Rightarrow> reply w2 (sendResponse rid (JStr (''Opened file: '' @ pth)))))\<close>

definition handleCreateFile :: "vscode \<Rightarrow> json \<Rightarrow> params \<Rightarrow> world \<Rightarrow> outcome" where
  \<open>handleCreateFile vs rid p w =
     (if missing (path p) then reply w (sendError rid ''Missing "path" parameter'')
      else
        let pth = the (path p);
            fileExists = fs_stat vs pth w
        in if fileExists then reply w (sendError rid (''File already exists: '' @ pth))
           else
             let contentText = orElse (content p) [];
                 contentBytes = utf8_encode vs contentText
             in case fs_writeFile vs pth contentBytes w of
                  Inl err \<Rightarrow> reply w (sendError rid (''Failed to create file: '' @ errText err))
                | Inr w1 \<Rightarrow>
                    (case openTextDocument vs pth w1 of
                       Inl err \<Rightarrow> reply w1 (sendError rid (''Failed to create file: '' @ errText err))
                     | Inr w2 \<Rightarrow>
                         (case showTextDocument vs pth w2 of
                            Inl err \<Rightarrow>
                              reply w2 (sendError rid (''Failed to create file: '' @ errText err))
                          | Inr w3 \<Rightarrow>
                              reply w3 (sendResponse rid (JStr (''Created file: '' @ pth))))))\<close>

definition handleSaveFile :: "vscode \<Rightarrow> json \<Rightarrow> params \<Rightarrow> world \<Rightarrow> outcome" where
  "handleSaveFile vs rid p w =
     (case activeTextEditor w of
        None \<Rightarrow> reply w (sendError rid ''No active editor to save'')
      | Some ed \<Rightarrow>
          (case document_save vs w of
             Inl err \<Rightarrow> reply w (sendError rid (''Failed to save file: '' @ errText err))
           | Inr w1 \<Rightarrow> reply w1 (sendResponse rid (JStr (''Saved file: '' @ fileName ed)))))"

definition handleCloseFile :: "vscode \<Rightarrow> json \<Rightarrow> params \<Rightarrow> world \<Rightarrow> outcome" where
  "handleCloseFile vs rid p w =
     (if \<not> missing (path p) then
        (let pth = the (path p);
             editorsToClose =
               filter (\<lambda>fsPath. fsPath = uri_fsPath vs pth) (visibleTextEditors w)
         in if length editorsToClose = 0 then reply w (sendError rid (''File not open: '' @ pth))
            else
              (case tabGroups_close vs editorsToClose w of
                 Inl err \<Rightarrow> reply w (sendError rid (''Failed to close file: '' @ errText err))
               | Inr w1 \<Rightarrow> reply w1 (sendResponse rid (JStr (''Closed file: '' @ pth)))))
      else
        (case activeTextEditor w of
           None \<Rightarrow> reply w (sendError rid ''No active editor to close'')
         | Some ed \<Rightarrow>
             let filePath = fileName ed
             in case executeCommand vs ''workbench.action.closeActiveEditor'' [] w of
                  Inl err \<Rightarrow> reply w (sendError rid (''Failed to close file: '' @ errText err))
                | Inr (r, w1) \<Rightarrow>
                    reply w1 (sendResponse rid (JStr (''Closed active file: '' @ filePath)))))"

text \<open>\<^verbatim>\<open>editor.document.getText()\<close>: the lines, joined by line feeds.\<close>

fun getText :: "string list \<Rightarrow> string" where
  "getText [] = []"
| "getText [l] = l"
| "getText (l # ls) = l @ [CHR 0x0A] @ getText ls"

definition handleGetFileContent :: "vscode \<Rightarrow> json \<Rightarrow> params \<Rightarrow> world \<Rightarrow> outcome" where
  "handleGetFileContent vs rid p w =
     (if \<not> missing (path p) then
        let pth = the (path p)
        in case fs_readFile vs pth w of
             Inl err \<Rightarrow>
               reply w (sendError rid (''Could not read file (not found or inaccessible): '' @ pth))
           | Inr fileContent \<Rightarrow>
               let textContent = utf8_decode vs fileContent
               in reply w (sendResponse rid
                    (JObj [(''path'', JStr pth), (''content'', JStr textContent)]))
      else
        (case activeTextEditor w of
           None \<Rightarrow> reply w (sendError rid ''No active editor to get content from'')
         | Some ed \<Rightarrow>
             let content0 = getText (document ed);
                 filePath = fileName ed
             in reply w (sendResponse rid
                  (JObj [(''path'', JStr filePath), (''content'', JStr content0)]))))"

definition handleRunCommand :: "vscode \<Rightarrow> json \<Rightarrow> params \<Rightarrow> world \<Rightarrow> outcome" where
  \<open>handleRunCommand vs rid p w =
     (if missing (command p) then reply w (sendError rid ''Missing "command" parameter'')
      else
        let cmd = the (command p)
        in case executeCommand vs cmd (case args p of None \<Rightarrow> [] | Some xs \<Rightarrow> xs) w of
             Inl err \<Rightarrow> reply w (sendError rid (''Command execution failed: '' @ errText err))
           | Inr (r, w1) \<Rightarrow>
               reply w1 (sendResponse rid
                 (JObj [(''command'', JStr cmd),
                        (''result'', (case r of Some v \<Rightarrow> v | None \<Rightarrow> JNull)),
                        (''success'', JBool True)])))\<close>

section \<open>The request router\<close>

text \<open>
  \<^verbatim>\<open>socket.on('message', ...)\<close>. The inbound data is \<open>None\<close> when \<^verbatim>\<open>JSON.parse\<close> throws its
  \<^verbatim>\<open>SyntaxError\<close>, and the parsed object otherwise; \<^verbatim>\<open>msg.params || {}\<close> is a record whose
  fields are all \<open>None\<close> when the request has no parameters.
\<close>

definition onMessage ::
  "vscode \<Rightarrow> real \<Rightarrow> (nat \<Rightarrow> real) \<Rightarrow> request option \<Rightarrow> world \<Rightarrow> outcome" where
  \<open>onMessage vs defaultSpeed random data w =
     (case data of
        None \<Rightarrow> reply w [BareError ''Invalid JSON message'']
      | Some msg \<Rightarrow>
          let rid = extractId (msg_id msg);
              act = (if missing (msg_action msg) then msg_method msg else msg_action msg);
              p = msg_params msg
          in if missing act
             then reply w (sendError rid ''Missing required "action" or "method" field'')
             else if the act = ''openFile'' then handleOpenFile vs rid p w
             else if the act = ''createFile'' then handleCreateFile vs rid p w
             else if the act = ''saveFile'' then handleSaveFile vs rid p w
             else if the act = ''closeFile'' then handleCloseFile vs rid p w
             else if the act = ''getFileContent'' then handleGetFileContent vs rid p w
             else if the act = ''runCommand'' then handleRunCommand vs rid p w
             else if the act = ''type'' then handleType vs defaultSpeed random rid p w
             else reply w (sendError rid (''Unknown action: '' @ the act)))\<close>

section \<open>A plain editor for the examples\<close>

text \<open>
  The examples run the handlers against a small editor of their own: an edit inserts into
  the line of the given position and leaves the cursor behind the inserted text, and typing
  a character inserts it at the cursor. With \<open>closing = Some n\<close> the document closes once
  its first line holds \<open>n\<close> characters, and typing into it fails from then on.
\<close>

definition insertAt :: "Position \<Rightarrow> string \<Rightarrow> string list \<Rightarrow> string list" where
  "insertAt pt txt ls =
     ls[posLine pt := take (posCharacter pt) (ls ! posLine pt) @ txt
                       @ drop (posCharacter pt) (ls ! posLine pt)]"

definition plainInsert :: "Position \<Rightarrow> string \<Rightarrow> editor \<Rightarrow> string + editor" where
  "plainInsert pt txt ed =
     (let caret = Position (posLine pt) (posCharacter pt + length txt)
      in Inr (ed\<lparr>document := insertAt pt txt (document ed), selection := Selection caret caret\<rparr>))"

definition plainDelete :: "Selection \<Rightarrow> editor \<Rightarrow> string + editor" where
  "plainDelete s ed =
     (let a = anchor s; b = active s; l = document ed ! posLine a
      in Inr (ed\<lparr>document := (document ed)[posLine a :=
                     take (posCharacter a) l @ drop (posCharacter b) l],
                 selection := Selection a a\<rparr>))"

definition plainType :: "nat option \<Rightarrow> char \<Rightarrow> editor \<Rightarrow> string + editor" where
  "plainType closing ch ed =
     (if closing = Some (length (hd (document ed))) then Inl ''Document closed''
      else plainInsert (active (selection ed)) [ch] ed)"

definition plainSurface :: "nat option \<Rightarrow> vscode" where
  "plainSurface closing =
     \<lparr>openTextDocument = (\<lambda>pth w. if pth \<in> dom (files w) then Inr w else Inl ''not found''),
      showTextDocument = (\<lambda>pth w. Inr w),
      uri_fsPath = (\<lambda>pth. if take 1 pth = ''/'' then pth else CHR ''/'' # pth),
      fs_stat = (\<lambda>pth w. pth \<in> dom (files w)),
      fs_writeFile = (\<lambda>pth bytes w. Inr (w\<lparr>files := (files w)(pth \<mapsto> bytes)\<rparr>)),
      fs_readFile = (\<lambda>pth w. case files w pth of None \<Rightarrow> Inl ''not found'' | Some b \<Rightarrow> Inr b),
      utf8_encode = (\<lambda>s. s),
      utf8_decode = (\<lambda>s. s),
      document_save = (\<lambda>w. Inr w),
      tabGroups_close = (\<lambda>ps w. Inr (w\<lparr>visibleTextEditors := filter (\<lambda>q. q \<notin> set ps) (visibleTextEditors w)\<rparr>)),
      executeCommand = (\<lambda>cmd xs w. Inl (''command not found: '' @ cmd)),
      edit_delete = plainDelete,
      edit_insert = plainInsert,
      default_type = plainType closing\<rparr>"

definition origin :: Position where
  "origin = Position 0 0"

definition xyEditor :: editor where
  "xyEditor = \<lparr>fileName = ''/tmp/a.txt'', document = [''xy''], selection = Selection origin origin\<rparr>"

definition xyWorld :: world where
  "xyWorld = \<lparr>activeTextEditor = Some xyEditor, visibleTextEditors = [''/tmp/a.txt''],
              files = [''/tmp/a.txt'' \<mapsto> ''xy'']\<rparr>"

definition noParams :: params where
  "noParams = \<lparr>path = None, content = None, command = None, args = None, text_param = None,
               position = None, selection_param = None, mode = None, speed = None,
               variation = None, duration = None, quick = None, afterCursor = None\<rparr>"

definition call :: "json option \<Rightarrow> string \<Rightarrow> params \<Rightarrow> request option" where
  "call rid act p = Some \<lparr>msg_id = rid, msg_action = Some act, msg_method = None, msg_params = p\<rparr>"

text \<open>Requests used in the examples.\<close>

definition farAway :: pos where
  "farAway = \<lparr>line = Some 7, character = Some 9\<rparr>"

definition typeText :: "string \<Rightarrow> params" where
  "typeText cs = noParams\<lparr>text_param := Some cs\<rparr>"

definition replaceXY :: params where
  "replaceXY = (typeText ''ab'')\<lparr>mode := Some ''replace'', quick := Some True,
     selection_param := Some \<lparr>range_start = \<lparr>line = Some 0, character = Some 0\<rparr>,
                               range_end = \<lparr>line = Some 0, character = Some 2\<rparr>\<rparr>\<rparr>"

text \<open>States of the example editor.\<close>

definition typedA :: editor where
  "typedA = xyEditor\<lparr>document := [''axy''], selection := Selection (Position 0 1) (Position 0 1)\<rparr>"

definition selectedXY :: editor where
  "selectedXY = xyEditor\<lparr>selection := Selection (Position 0 0) (Position 0 2)\<rparr>"

definition clearedXY :: editor where
  "clearedXY = xyEditor\<lparr>document := [[]], selection := Selection (Position 0 0) (Position 0 0)\<rparr>"

definition typedAB :: editor where
  "typedAB = xyEditor\<lparr>document := [''ab''], selection := Selection (Position 0 2) (Position 0 2)\<rparr>"

section \<open>The specification's wording\<close>

text \<open>
  The definitions of this section are written from the specification, to be compared with
  the handlers above. The effective per-character delay: \<open>duration / max(1, text.length)\<close> if
  a total duration is given, otherwise the request's speed, or the configured one.
\<close>

definition specDelay :: "real option \<Rightarrow> real option \<Rightarrow> real \<Rightarrow> nat \<Rightarrow> real" where
  "specDelay dur spd configured len =
     (case dur of
        Some d \<Rightarrow> d / real (max 1 len)
      | None \<Rightarrow> (case spd of Some s \<Rightarrow> s | None \<Rightarrow> configured))"

text \<open>
  The candidate tokens of a connection attempt, given the token of the query and the
  authorization header: the query parameter, and the header with its bearer prefix removed.
\<close>

definition candidates :: "string option \<Rightarrow> string option \<Rightarrow> string list" where
  "candidates query header =
     (case query of None \<Rightarrow> [] | Some t \<Rightarrow> [t]) @
     (case header of
        None \<Rightarrow> []
      | Some h \<Rightarrow> if h = [] then [] else [replaceFirst ''Bearer '' [] h])"

text \<open>
  Clamping a position against a document: a line at or beyond the line count becomes the
  last line, a character beyond the length of that line becomes the length.
\<close>

definition specClamp :: "string list \<Rightarrow> pos \<Rightarrow> Position" where
  "specClamp doc q =
     (let l = (if length doc \<le> orZero (line q) then length doc - 1 else orZero (line q));
          c = (if length (doc ! l) < orZero (character q) then length (doc ! l)
               else orZero (character q))
      in Position l c)"

text \<open>Typing the characters of a text one after the other, with no delay; \<open>None\<close> if one fails.\<close>

fun typeAll :: "vscode \<Rightarrow> string \<Rightarrow> editor \<Rightarrow> editor option" where
  "typeAll vs [] ed = Some ed"
| "typeAll vs (ch # rest) ed =
     (case default_type vs ch ed of Inl err \<Rightarrow> None | Inr ed' \<Rightarrow> typeAll vs rest ed')"

text \<open>
  \<open>randomSignedUnit()\<close>, as a function of the draw \<open>u\<close> of \<^verbatim>\<open>Math.random()\<close> in \<open>[0, 1)\<close>, and
  the wait before a character: \<open>effectiveDelay * (1 + jitterFraction * randomSignedUnit())\<close>.
\<close>

definition randomSignedUnit :: "real \<Rightarrow> real" where
  "randomSignedUnit u = 2 * u - 1"

definition specWait :: "real \<Rightarrow> real \<Rightarrow> real \<Rightarrow> real" where
  "specWait effectiveDelay jitterFraction u =
     effectiveDelay * (1 + jitterFraction * randomSignedUnit u)"

section \<open>Lemmas about the handlers\<close>

text \<open>The definitions to unfold when a handler is run on a concrete request.\<close>

lemmas example_defs = plainSurface_def plainInsert_def plainDelete_def plainType_def insertAt_def
  origin_def xyEditor_def xyWorld_def noParams_def call_def farAway_def typeText_def replaceXY_def

lemmas more_defs = typedA_def selectedXY_def clearedXY_def typedAB_def

lemmas handler_defs = onMessage_def extractId_def missing_def orElse_def orZero_def orZeroReal_def
  sendResponse_def sendError_def reply_def errText_def
  handleType_def typeJob_def quickPath_def animatedPath_def placeAfterCursor_def
  placeCursor_def placeSelection_def clampPosition_def toPosition_def lineAt_def lineCount_def
  moveToEnd_def appendMove_def clearSelection_def resolveSpeed_def isEmpty_def
  handleOpenFile_def handleCreateFile_def handleSaveFile_def handleCloseFile_def
  handleGetFileContent_def handleRunCommand_def


lemma sent_reply: "sent (reply w ms) = ms" "final (reply w ms) = w" "waits (reply w ms) = []"
  by (simp_all add: reply_def)

lemma sendResponse_null: "sendResponse JNull r = []"
  by (simp add: sendResponse_def)

lemma sendError_ne: "sendError i e \<noteq> [ResultMsg j r]"
  by (simp add: sendError_def)

lemma openFile_quiet:
  "sent (handleOpenFile vs rid p w) = [ResultMsg rid r] \<Longrightarrow> sent (handleOpenFile vs JNull p w) = []"
  by (auto simp: handleOpenFile_def Let_def sent_reply sendResponse_null sendError_ne
      split: if_splits sum.splits)

lemma createFile_quiet:
  "sent (handleCreateFile vs rid p w) = [ResultMsg rid r] \<Longrightarrow> sent (handleCreateFile vs JNull p w) = []"
  by (auto simp: handleCreateFile_def Let_def sent_reply sendResponse_null sendError_ne
      split: if_splits sum.splits)

lemma saveFile_quiet:
  "sent (handleSaveFile vs rid p w) = [ResultMsg rid r] \<Longrightarrow> sent (handleSaveFile vs JNull p w) = []"
  by (auto simp: handleSaveFile_def Let_def sent_reply sendResponse_null sendError_ne
      split: if_splits sum.splits option.splits)

lemma closeFile_quiet:
  "sent (handleCloseFile vs rid p w) = [ResultMsg rid r] \<Longrightarrow> sent (handleCloseFile vs JNull p w) = []"
  by (auto simp: handleCloseFile_def Let_def sent_reply sendResponse_null sendError_ne
      split: if_splits sum.splits option.splits prod.splits)

lemma getFileContent_quiet:
  "sent (handleGetFileContent vs rid p w) = [ResultMsg rid r] \<Longrightarrow> sent (handleGetFileContent vs JNull p w) = []"
  by (auto simp: handleGetFileContent_def Let_def sent_reply sendResponse_null sendError_ne
      split: if_splits sum.splits option.splits prod.splits)

lemma runCommand_quiet:
  "sent (handleRunCommand vs rid p w) = [ResultMsg rid r] \<Longrightarrow> sent (handleRunCommand vs JNull p w) = []"
  by (auto simp: handleRunCommand_def Let_def sent_reply sendResponse_null sendError_ne
      split: if_splits sum.splits option.splits prod.splits)

lemma type_quiet:
  "sent (handleType vs ds rnd rid p w) = [ResultMsg rid r] \<Longrightarrow> sent (handleType vs ds rnd JNull p w) = []"
  by (auto simp: handleType_def Let_def sent_reply sendResponse_null sendError_ne
      split: if_splits sum.splits option.splits prod.splits)

lemma extractId_truthy: "truthy i \<Longrightarrow> extractId (Some i) = i"
  by (auto simp: extractId_def)

lemma onMessage_quiet:
  assumes "sent (onMessage vs ds rnd (Some (m\<lparr>msg_id := Some i\<rparr>)) w) = [ResultMsg i r]" "truthy i"
    and "extractId v = JNull"
  shows "sent (onMessage vs ds rnd (Some (m\<lparr>msg_id := v\<rparr>)) w) = []"
  using assms
  by (auto simp: onMessage_def Let_def sent_reply sendError_ne extractId_truthy
      intro: openFile_quiet createFile_quiet saveFile_quiet closeFile_quiet getFileContent_quiet
        runCommand_quiet type_quiet
      split: if_splits)

lemma clampPosition_spec:
  assumes "document ed \<noteq> []"
  shows "clampPosition ed (toPosition q) = Inr (specClamp (document ed) q)"
proof -
  let ?n = "length (document ed)"
  let ?l = "min (int (orZero (line q))) (int ?n - 1)"
  from assms have pos: "0 < ?n" by simp
  then have rng: "0 \<le> ?l \<and> ?l < int ?n" by auto
  have nat_l: "nat ?l = (if ?n \<le> orZero (line q) then ?n - 1 else orZero (line q))"
    using pos by (auto simp: min_def)
  show ?thesis
    using rng nat_l
    by (simp add: clampPosition_def toPosition_def lineAt_def lineCount_def specClamp_def Let_def min_def)
qed

lemma handleType_unfold:
  assumes "text_param p = Some txt" "txt \<noteq> []" "activeTextEditor w = Some ed"
  shows "onMessage vs ds rnd (call rid ''type'' p) w =
    (case typeJob vs ds rnd p txt ed of
       (Inr msg, ed', ws) \<Rightarrow>
         \<lparr>final = w\<lparr>activeTextEditor := Some ed'\<rparr>, sent = sendResponse (extractId rid) (JStr msg), waits = ws\<rparr>
     | (Inl err, ed', ws) \<Rightarrow>
         \<lparr>final = w\<lparr>activeTextEditor := Some ed'\<rparr>,
          sent = sendError (extractId rid) (''Typing failed: '' @ errText err), waits = ws\<rparr>)"
  using assms by (simp add: onMessage_def call_def missing_def handleType_def Let_def)




lemma effectiveDelay_specWait:
  "(if var \<noteq> 0 then spd * (1 + (u * 2 - 1) * var) else spd) = specWait spd var u"
  by (simp add: specWait_def randomSignedUnit_def algebra_simps)

lemma typeLoop_failure:
  assumes "typeAll vs (take k cs) ed = Some edk" "k < length cs"
    and "default_type vs (cs ! k) edk = Inl err"
  shows "typeLoop vs spd var rnd i cs ed =
           (Some err, edk, map (\<lambda>j. specWait spd var (rnd (i + j))) [0..<Suc k])"
  using assms
proof (induction cs arbitrary: k ed i)
  case Nil
  then show ?case by simp
next
  case (Cons ch rest)
  show ?case
  proof (cases k)
    case 0
    with Cons.prems show ?thesis
      by (simp add: effectiveDelay_specWait)
  next
    case (Suc k')
    with Cons.prems obtain ed' where
      step: "default_type vs ch ed = Inr ed'" and tl: "typeAll vs (take k' rest) ed' = Some edk"
      by (auto split: sum.splits)
    from Cons.prems Suc have "k' < length rest" "default_type vs (rest ! k') edk = Inl err"
      by simp_all
    from Cons.IH[OF tl this, of "Suc i"] step Suc show ?thesis
      by (simp add: effectiveDelay_specWait map_upt_Suc del: upt_Suc)
  qed
qed

lemma typeLoop_success:
  "typeLoop vs spd var rnd i cs ed = (None, ed', ws) \<Longrightarrow>
     typeAll vs cs ed = Some ed' \<and> ws = map (\<lambda>j. specWait spd var (rnd (i + j))) [0..<length cs]"
proof (induction cs arbitrary: ed i ws)
  case Nil
  then show ?case by simp
next
  case (Cons ch rest)
  from Cons.prems obtain e1 ws1 where
    step: "default_type vs ch ed = Inr e1" and
    rec: "typeLoop vs spd var rnd (Suc i) rest e1 = (None, ed', ws1)" and
    ws: "ws = specWait spd var (rnd i) # ws1"
    by (auto simp: effectiveDelay_specWait Let_def split: sum.splits prod.splits)
  from Cons.IH[OF rec] step ws show ?case
    by (simp add: map_upt_Suc del: upt_Suc)
qed





lemma typeJob_animated_failure:
  assumes "quick p \<noteq> Some True"
    and "placeCursor p ed = Inr ed1" "placeSelection p ed1 = Inr ed2"
    and "clearSelection vs (orElse (mode p) ''insert'') ed2 = Inr ed3"
    and "appendMove (orElse (mode p) ''insert'') ed3 = Inr ed4"
    and "typeAll vs (take k cs) ed4 = Some edk" "k < length cs"
    and "default_type vs (cs ! k) edk = Inl err"
  shows "typeJob vs ds rnd p cs ed =
     (Inl err, edk, map (\<lambda>j. specWait (resolveSpeed ds p cs) (orZeroReal (variation p)) (rnd j)) [0..<Suc k])"
  using assms(1-5) typeLoop_failure[OF assms(6-8), of "resolveSpeed ds p cs" "orZeroReal (variation p)" rnd 0]
  by (simp add: typeJob_def animatedPath_def Let_def del: upt_Suc)







lemma admission_when_url_parses:
  assumes "authToken = Some secret" "secret \<noteq> []" "parsedUrl req = Inr query"
  shows "admit True authToken req =
           (if secret \<in> set (candidates query (authorization req)) then Accept
            else Reject 401 ''Invalid authentication token'')"
  using assms
  by (auto simp: admit_def verifyClient_def missing_def headerToken_def candidates_def Let_def
      split: option.splits if_splits)

section \<open>Claims\<close>

subsection \<open>C1: requests without an id\<close>

text \<open>
  C1. A request whose id is absent must never produce an outbound message, on success and on
  error alike. \<^const>\<open>sendResponse\<close> returns without sending when the id is null;
  \<^const>\<open>sendError\<close> has no such test. The request \<^verbatim>\<open>{"action": "openFile", "params": {}}\<close>
  carries no id and no path, and the handler answers it with an error message whose id is
  null, while the successful \<^verbatim>\<open>saveFile\<close> without id is answered with nothing.
\<close>

theorem error_sent_without_id:
  \<open>sent (onMessage (plainSurface None) 50 (\<lambda>_. 0) (call None ''openFile'' noParams) xyWorld) =
     [ErrorMsg JNull ''Missing "path" parameter''] \<and>
   sent (onMessage (plainSurface None) 50 (\<lambda>_. 0) (call None ''saveFile'' noParams) xyWorld) = []\<close>
  by (simp add: handler_defs example_defs)

subsection \<open>C2: a failure while typing\<close>

text \<open>
  C2, as amended. In an animated typing job whose first \<open>k\<close> characters are typed and whose
  next character fails with the error \<open>err\<close>, the handler stops there: the editor is left as
  it was after the \<open>k\<close> characters (they are not rolled back), exactly \<open>k + 1\<close> delays have been
  waited, no later character is typed and no after-cursor is placed, and the response is the
  error \<^verbatim>\<open>Typing failed:\<close> followed by the message of \<open>err\<close>. The response does not carry
  the number of characters typed.
\<close>

theorem typing_failure_aborts:
  assumes "text_param p = Some cs" "quick p \<noteq> Some True" "activeTextEditor w = Some ed"
    and "placeCursor p ed = Inr ed1" "placeSelection p ed1 = Inr ed2"
    and "clearSelection vs (orElse (mode p) ''insert'') ed2 = Inr ed3"
    and "appendMove (orElse (mode p) ''insert'') ed3 = Inr ed4"
    and "typeAll vs (take k cs) ed4 = Some edk" "k < length cs"
    and "default_type vs (cs ! k) edk = Inl err"
  shows "onMessage vs ds rnd (call rid ''type'' p) w =
     \<lparr>final = w\<lparr>activeTextEditor := Some edk\<rparr>,
      sent = sendError (extractId rid) (''Typing failed: '' @ errText err),
      waits = map (\<lambda>j. specWait (resolveSpeed ds p cs) (orZeroReal (variation p)) (rnd j)) [0..<Suc k]\<rparr>"
proof -
  from assms(9) have ne: "cs \<noteq> []" by auto
  show ?thesis
    by (simp add: handleType_unfold[OF assms(1) ne assms(3)]
        typeJob_animated_failure[OF assms(2,4-10)] del: upt_Suc)
qed

text \<open>
  The theorem at work: the document \<^verbatim>\<open>xy\<close> closes once it holds three characters, so of
  \<^verbatim>\<open>ab\<close> the first character is typed and the second fails.
\<close>

theorem typing_failure_aborts_witness:
  "typeAll (plainSurface (Some 3)) (take 1 ''ab'') xyEditor = Some typedA \<and>
   default_type (plainSurface (Some 3)) (''ab'' ! 1) typedA = Inl ''Document closed'' \<and>
   onMessage (plainSurface (Some 3)) 50 (\<lambda>_. 0) (call (Some (JNum 1)) ''type'' (typeText ''ab'')) xyWorld =
     \<lparr>final = xyWorld\<lparr>activeTextEditor := Some typedA\<rparr>,
      sent = [ErrorMsg (JNum 1) ''Typing failed: Document closed''],
      waits = [50, 50]\<rparr>"
proof -
  let ?vs = "plainSurface (Some 3)" and ?p = "typeText ''ab''"
  have 1: "text_param ?p = Some ''ab''" by (simp add: example_defs)
  have 2: "quick ?p \<noteq> Some True" by (simp add: example_defs)
  have 3: "activeTextEditor xyWorld = Some xyEditor" by (simp add: example_defs)
  have 4: "placeCursor ?p xyEditor = Inr xyEditor" by (simp add: placeCursor_def example_defs)
  have 5: "placeSelection ?p xyEditor = Inr xyEditor" by (simp add: placeSelection_def example_defs)
  have 6: "clearSelection ?vs (orElse (mode ?p) ''insert'') xyEditor = Inr xyEditor"
    by (simp add: clearSelection_def orElse_def isEmpty_def example_defs)
  have 7: "appendMove (orElse (mode ?p) ''insert'') xyEditor = Inr xyEditor"
    by (simp add: appendMove_def orElse_def example_defs)
  have 8: "typeAll ?vs (take 1 ''ab'') xyEditor = Some typedA"
    by (simp add: example_defs more_defs Let_def)
  have 9: "1 < length ''ab''" by simp
  have 10: "default_type ?vs (''ab'' ! 1) typedA = Inl ''Document closed''"
    by (simp add: example_defs more_defs Let_def)
  from typing_failure_aborts[OF 1 2 3 4 5 6 7 8 9 10, of 50 "\<lambda>_. 0" "Some (JNum 1)"] 8 10
  show ?thesis
    by (simp add: handler_defs specWait_def randomSignedUnit_def example_defs)
qed

text \<open>
  C2 as stated fails: two jobs typing \<^verbatim>\<open>abc\<close>, one failing after one character and one
  after two, send the same error response, so the response does not report how many
  characters were committed.
\<close>

theorem typing_failure_count_not_reported:
  "sent (onMessage (plainSurface (Some 3)) 50 (\<lambda>_. 0)
          (call (Some (JNum 1)) ''type'' (typeText ''abc'')) xyWorld)
     = [ErrorMsg (JNum 1) ''Typing failed: Document closed''] \<and>
   sent (onMessage (plainSurface (Some 4)) 50 (\<lambda>_. 0)
          (call (Some (JNum 1)) ''type'' (typeText ''abc'')) xyWorld)
     = [ErrorMsg (JNum 1) ''Typing failed: Document closed''] \<and>
   map_option document (activeTextEditor (final (onMessage (plainSurface (Some 3)) 50 (\<lambda>_. 0)
          (call (Some (JNum 1)) ''type'' (typeText ''abc'')) xyWorld)))
     = Some [''axy''] \<and>
   map_option document (activeTextEditor (final (onMessage (plainSurface (Some 4)) 50 (\<lambda>_. 0)
          (call (Some (JNum 1)) ''type'' (typeText ''abc'')) xyWorld)))
     = Some [''abxy'']"
  by (simp add: handler_defs example_defs Let_def)

subsection \<open>C3: the delay before each character\<close>




subsection \<open>C4: positions are clamped\<close>

text \<open>
  C4. For every position and every selection endpoint given for pre-positioning, in a
  document that has at least one line (as every editor document has): a line at or beyond
  the line count is replaced by the last line, a character beyond the length of the line
  used is replaced by that length, and neither step throws: the cursor or the selection is
  set to the clamped positions.
\<close>

theorem positions_clamped:
  assumes "document ed \<noteq> []"
  shows "clampPosition ed (toPosition q) = Inr (specClamp (document ed) q) \<and>
    placeCursor p ed = Inr (case position p of
        None \<Rightarrow> ed
      | Some c \<Rightarrow> ed\<lparr>selection := Selection (specClamp (document ed) c) (specClamp (document ed) c)\<rparr>) \<and>
    placeSelection p ed = Inr (case selection_param p of
        None \<Rightarrow> ed
      | Some r \<Rightarrow> ed\<lparr>selection := Selection (specClamp (document ed) (range_start r))
                                          (specClamp (document ed) (range_end r))\<rparr>)"
  using assms
  by (simp add: placeCursor_def placeSelection_def clampPosition_spec split: option.splits)

text \<open>The theorem at work: line 7, character 9 in the one-line document \<^verbatim>\<open>xy\<close>.\<close>

theorem positions_clamped_witness:
  "document xyEditor \<noteq> [] \<and>
   clampPosition xyEditor (toPosition farAway) = Inr (Position 0 2) \<and>
   placeCursor (noParams\<lparr>position := Some farAway\<rparr>) xyEditor =
     Inr (xyEditor\<lparr>selection := Selection (Position 0 2) (Position 0 2)\<rparr>) \<and>
   placeSelection (noParams\<lparr>selection_param := Some \<lparr>range_start = farAway, range_end = farAway\<rparr>\<rparr>) xyEditor =
     Inr (xyEditor\<lparr>selection := Selection (Position 0 2) (Position 0 2)\<rparr>)"
proof -
  have ne: "document xyEditor \<noteq> []" by (simp add: xyEditor_def)
  have sc: "specClamp (document xyEditor) farAway = Position 0 2"
    by (simp add: specClamp_def xyEditor_def farAway_def orZero_def)
  from positions_clamped[OF ne, of farAway "noParams\<lparr>position := Some farAway\<rparr>"]
       positions_clamped[OF ne, of farAway
         "noParams\<lparr>selection_param := Some \<lparr>range_start = farAway, range_end = farAway\<rparr>\<rparr>"]
       ne sc
  show ?thesis by (simp add: noParams_def)
qed

subsection \<open>C5: quick mode\<close>



subsection \<open>C6: the cursor after typing\<close>

text \<open>
  C6. After an animated job the after-cursor target should be clamped against the document
  and then set as the cursor. The handler sets it as given: after typing \<^verbatim>\<open>ab\<close> into the
  one-line document \<^verbatim>\<open>xy\<close> with the target line 7, character 9, the selection is at line 7,
  character 9, where clamping as for the position before typing gives line 0, character 4.
\<close>

theorem afterCursor_not_clamped:
  "activeTextEditor (final (onMessage (plainSurface None) 50 (\<lambda>_. 0)
      (call (Some (JNum 1)) ''type'' ((typeText ''ab'')\<lparr>afterCursor := Some farAway\<rparr>)) xyWorld)) =
     Some \<lparr>fileName = ''/tmp/a.txt'', document = [''abxy''],
           selection = Selection (Position 7 9) (Position 7 9)\<rparr> \<and>
   clampPosition \<lparr>fileName = ''/tmp/a.txt'', document = [''abxy''],
           selection = Selection (Position 0 2) (Position 0 2)\<rparr> (toPosition farAway) =
     Inr (Position 0 4)"
  by (simp add: handler_defs example_defs Let_def)

subsection \<open>C7: the effective delay\<close>

text \<open>
  C7. The speed the handler computes is \<open>duration / max(1, text.length)\<close> when the request
  gives a duration, and otherwise the speed of the request, or the configured default speed
  when the request gives none.
\<close>

theorem pacing_resolution:
  "resolveSpeed defaultSpeed p cs = specDelay (duration p) (speed p) defaultSpeed (length cs)"
  by (simp add: resolveSpeed_def specDelay_def max.commute split: option.splits)

subsection \<open>C8: admission by token\<close>

text \<open>
  C8. With authentication enabled and a secret configured, a connection attempt should be
  accepted exactly when a candidate token of the query or of the authorization header
  equals the secret, and rejected with the invalid-token status otherwise. The handler
  parses the request target first, with no \<^verbatim>\<open>try\<close>: for the target \<^verbatim>\<open>//\<close> the parse throws, and
  the attempt is neither accepted, although its authorization header carries the secret,
  nor, without any token, rejected with status 401.
\<close>

theorem url_parse_failure_undecided:
  "admit True (Some ''s3cret'')
     \<lparr>parsedUrl = Inl ''Invalid URL'', authorization = Some ''Bearer s3cret''\<rparr> =
     Threw ''Invalid URL'' \<and>
   headerToken (Some ''Bearer s3cret'') = Some ''s3cret'' \<and>
   admit True (Some ''s3cret'') \<lparr>parsedUrl = Inl ''Invalid URL'', authorization = None\<rparr> =
     Threw ''Invalid URL''"
  by (simp add: admit_def verifyClient_def missing_def headerToken_def)

subsection \<open>C9: falsy ids\<close>

text \<open>
  C9. A request whose id is the number 0, the empty string or \<^verbatim>\<open>false\<close> has its id
  normalised to null and is handled exactly as the same request without an id; whenever the
  request would be answered with a result under a proper id, nothing at all is sent for it.
\<close>

theorem falsy_id_is_notification:
  assumes "msg_id m = Some v" "v \<in> {JNum 0, JStr [], JBool False}"
  shows "extractId (msg_id m) = JNull \<and>
    onMessage vs ds rnd (Some m) w = onMessage vs ds rnd (Some (m\<lparr>msg_id := None\<rparr>)) w \<and>
    (\<forall>i r. truthy i \<and> sent (onMessage vs ds rnd (Some (m\<lparr>msg_id := Some i\<rparr>)) w) = [ResultMsg i r]
       \<longrightarrow> sent (onMessage vs ds rnd (Some m) w) = [])"
proof -
  have a: "extractId (msg_id m) = JNull" using assms by (auto simp: extractId_def)
  have b: "onMessage vs ds rnd (Some m) w = onMessage vs ds rnd (Some (m\<lparr>msg_id := None\<rparr>)) w"
    by (simp add: onMessage_def a) (simp add: extractId_def)
  have m: "m\<lparr>msg_id := msg_id m\<rparr> = m" by simp
  from onMessage_quiet[where v = "msg_id m" and m = m and vs = vs and ds = ds and rnd = rnd and w = w] a
  have c: "\<forall>i r. truthy i \<and> sent (onMessage vs ds rnd (Some (m\<lparr>msg_id := Some i\<rparr>)) w) = [ResultMsg i r]
       \<longrightarrow> sent (onMessage vs ds rnd (Some m) w) = []"
    unfolding m by blast
  from a b c show ?thesis by (intro conjI)
qed

text \<open>The theorem at work: \<^verbatim>\<open>saveFile\<close> with the id 0 and with the id 1.\<close>

theorem falsy_id_is_notification_witness:
  "sent (onMessage (plainSurface None) 50 (\<lambda>_. 0) (call (Some (JNum 1)) ''saveFile'' noParams) xyWorld) =
     [ResultMsg (JNum 1) (JStr ''Saved file: /tmp/a.txt'')] \<and>
   sent (onMessage (plainSurface None) 50 (\<lambda>_. 0) (call (Some (JNum 0)) ''saveFile'' noParams) xyWorld) = [] \<and>
   onMessage (plainSurface None) 50 (\<lambda>_. 0) (call (Some (JNum 0)) ''saveFile'' noParams) xyWorld =
     onMessage (plainSurface None) 50 (\<lambda>_. 0) (call None ''saveFile'' noParams) xyWorld"
proof -
  let ?m = "\<lparr>msg_id = Some (JNum 0), msg_action = Some ''saveFile'', msg_method = None,
               msg_params = noParams\<rparr>"
  have 1: "msg_id ?m = Some (JNum 0)" by simp
  have 2: "JNum 0 \<in> {JNum 0, JStr [], JBool False}" by simp
  have ok: "sent (onMessage (plainSurface None) 50 (\<lambda>_. 0) (call (Some (JNum 1)) ''saveFile'' noParams) xyWorld) =
     [ResultMsg (JNum 1) (JStr ''Saved file: /tmp/a.txt'')]"
    by (simp add: handler_defs example_defs)
  note inst = falsy_id_is_notification[OF 1 2, of "plainSurface None" 50 "\<lambda>_. 0" xyWorld]
  from inst have same: "onMessage (plainSurface None) 50 (\<lambda>_. 0) (Some ?m) xyWorld =
      onMessage (plainSurface None) 50 (\<lambda>_. 0) (Some (?m\<lparr>msg_id := None\<rparr>)) xyWorld"
    by (rule conjunct1[OF conjunct2])
  from inst have "truthy (JNum 1) \<and>
      sent (onMessage (plainSurface None) 50 (\<lambda>_. 0) (Some (?m\<lparr>msg_id := Some (JNum 1)\<rparr>)) xyWorld) =
        [ResultMsg (JNum 1) (JStr ''Saved file: /tmp/a.txt'')]
      \<longrightarrow> sent (onMessage (plainSurface None) 50 (\<lambda>_. 0) (Some ?m) xyWorld) = []"
    by blast
  with ok have quiet: "sent (onMessage (plainSurface None) 50 (\<lambda>_. 0) (Some ?m) xyWorld) = []"
    by (simp add: call_def)
  from ok quiet same show ?thesis by (simp add: call_def)
qed

subsection \<open>C10: reading a file leaves the editor alone\<close>

text \<open>
  C10. A \<^verbatim>\<open>getFileContent\<close> request with a path reads the bytes of the file from the
  file system and answers with their UTF-8 decoding (or with an error when the read fails);
  the state afterwards is the state before: the active editor, its document and its
  selection are unchanged.
\<close>

theorem getFileContent_frame:
  assumes "path p = Some pth" "pth \<noteq> []"
  shows "final (onMessage vs ds rnd (call rid ''getFileContent'' p) w) = w \<and>
         sent (onMessage vs ds rnd (call rid ''getFileContent'' p) w) =
           (case fs_readFile vs pth w of
              Inl err \<Rightarrow> sendError (extractId rid)
                (''Could not read file (not found or inaccessible): '' @ pth)
            | Inr bytes \<Rightarrow> sendResponse (extractId rid)
                (JObj [(''path'', JStr pth), (''content'', JStr (utf8_decode vs bytes))]))"
  using assms
  by (simp add: onMessage_def call_def missing_def handleGetFileContent_def Let_def sent_reply
      split: sum.splits)

text \<open>The theorem at work: reading \<^verbatim>\<open>/tmp/a.txt\<close>.\<close>

theorem getFileContent_frame_witness:
  "final (onMessage (plainSurface None) 50 (\<lambda>_. 0)
       (call (Some (JNum 3)) ''getFileContent'' (noParams\<lparr>path := Some ''/tmp/a.txt''\<rparr>)) xyWorld) = xyWorld \<and>
   sent (onMessage (plainSurface None) 50 (\<lambda>_. 0)
       (call (Some (JNum 3)) ''getFileContent'' (noParams\<lparr>path := Some ''/tmp/a.txt''\<rparr>)) xyWorld) =
     [ResultMsg (JNum 3) (JObj [(''path'', JStr ''/tmp/a.txt''), (''content'', JStr ''xy'')])]"
proof -
  have 1: "path (noParams\<lparr>path := Some ''/tmp/a.txt''\<rparr>) = Some ''/tmp/a.txt''" by simp
  have 2: "''/tmp/a.txt'' \<noteq> []" by simp
  from getFileContent_frame[OF 1 2, of "plainSurface None" 50 "\<lambda>_. 0" "Some (JNum 3)" xyWorld]
  show ?thesis
    by (simp add: plainSurface_def xyWorld_def extractId_def sendResponse_def)
qed

end
